theory Spec2Isabelle
  imports Complex_Main
begin

section \<open>The front end: \<open>src/frontend/app.js\<close>\<close>

text \<open>
  The repository's sources are the browser front end of the eligibility agent. Its
  handlers read form fields and prompt answers, issue HTTP requests to the API and
  report the outcome with \<open>alert\<close>. The model makes these effects explicit:
  a handler maps its inputs and the state of the server to the trace of what it did
  (prompts shown, requests issued, alerts raised, exceptions left uncaught), the new
  contents of the page and the new state of the server. The server is a parameter:
  any function from a request and a server state to a response (or a network failure)
  and a new server state.
\<close>

subsection \<open>JavaScript numbers, \<open>parseFloat\<close> and \<open>||\<close>\<close>

text \<open>
  A Number is NaN, an infinity or a finite value. Finite values are kept as exact
  rationals: rounding to the nearest double is modelled only where it changes the kind
  of the value (overflow to an infinity, underflow to zero), so a text of more than
  about 17 significant digits keeps its exact value here where JavaScript keeps the
  nearest double, of the same sign. \<open>-0\<close> and \<open>+0\<close>, both falsy and both
  serialised as \<open>0\<close>, are one value. Strings are lists of code units below 256.
\<close>

datatype jsnum = NaN | Fin rat | PosInf | NegInf

definition is_digit :: "char \<Rightarrow> bool" where
  "is_digit c = (c \<in> set ''0123456789'')"

definition digit_value :: "char \<Rightarrow> nat" where
  "digit_value c = of_char c - 48"

definition digits_value :: "string \<Rightarrow> nat" where
  "digits_value ds = foldl (\<lambda>a c. 10 * a + digit_value c) 0 ds"

text \<open>White space and line terminators that \<open>TrimString\<close> removes (those below 256).\<close>

definition is_js_space :: "char \<Rightarrow> bool" where
  "is_js_space c = ((of_char c :: nat) \<in> {9, 10, 11, 12, 13, 32, 160})"

definition pow10 :: "int \<Rightarrow> rat" where
  "pow10 e = (if 0 \<le> e then 10 ^ nat e else 1 / 10 ^ nat (- e))"

text \<open>
  The Number for a non-negative mathematical value: at or above
  \<open>2^1024 - 2^970\<close> it rounds to \<open>Infinity\<close>, at or below \<open>2^-1075\<close> to zero.
\<close>

definition number_of_mv :: "rat \<Rightarrow> jsnum" where
  "number_of_mv v =
     (if 2 ^ 1024 - 2 ^ 970 \<le> v then PosInf
      else if v \<le> 1 / 2 ^ 1075 then Fin 0
      else Fin v)"

text \<open>
  \<open>ExponentPart\<close>: \<open>e\<close> or \<open>E\<close>, an optional sign and at least one digit;
  an incomplete exponent is not part of the longest prefix and counts as none.
\<close>

definition exponent_part :: "string \<Rightarrow> int" where
  "exponent_part r =
     (case r of
        [] \<Rightarrow> 0
      | c # r1 \<Rightarrow>
          if c = CHR ''e'' \<or> c = CHR ''E'' then
            (case r1 of
               [] \<Rightarrow> 0
             | d # r2 \<Rightarrow>
                 if d = CHR ''+'' then
                   (if takeWhile is_digit r2 = [] then 0
                    else int (digits_value (takeWhile is_digit r2)))
                 else if d = CHR ''-'' then
                   (if takeWhile is_digit r2 = [] then 0
                    else - int (digits_value (takeWhile is_digit r2)))
                 else if takeWhile is_digit r1 = [] then 0
                 else int (digits_value (takeWhile is_digit r1)))
          else 0)"

text \<open>
  \<open>StrUnsignedDecimalLiteral\<close>: \<open>Infinity\<close>, digits with an optional
  fraction, or a fraction starting with the dot; each with an optional exponent.
\<close>

definition parse_unsigned :: "string \<Rightarrow> jsnum" where
  "parse_unsigned s =
     (if take 8 s = ''Infinity'' then PosInf
      else
        let ip = takeWhile is_digit s; r1 = dropWhile is_digit s in
        (case r1 of
           [] \<Rightarrow> if ip = [] then NaN else number_of_mv (of_nat (digits_value ip))
         | c # r2 \<Rightarrow>
             if c = CHR ''.'' then
               (let fp = takeWhile is_digit r2; r3 = dropWhile is_digit r2 in
                if ip = [] \<and> fp = [] then NaN
                else number_of_mv (of_nat (digits_value (ip @ fp))
                       * pow10 (exponent_part r3 - int (length fp))))
             else if ip = [] then NaN
             else number_of_mv (of_nat (digits_value ip) * pow10 (exponent_part r1))))"

definition js_negate :: "jsnum \<Rightarrow> jsnum" where
  "js_negate v = (case v of NaN \<Rightarrow> NaN | Fin x \<Rightarrow> Fin (- x) | PosInf \<Rightarrow> NegInf | NegInf \<Rightarrow> PosInf)"

definition parseFloat :: "string \<Rightarrow> jsnum" where
  "parseFloat input =
     (let t = dropWhile is_js_space input in
      case t of
        [] \<Rightarrow> NaN
      | c # r \<Rightarrow>
          if c = CHR ''-'' then js_negate (parse_unsigned r)
          else if c = CHR ''+'' then parse_unsigned r
          else parse_unsigned t)"

text \<open>\<open>v || 0\<close> on a Number: NaN and zero are falsy.\<close>

definition js_truthy :: "jsnum \<Rightarrow> bool" where
  "js_truthy v = (v \<noteq> NaN \<and> v \<noteq> Fin 0)"

definition js_or_zero :: "jsnum \<Rightarrow> jsnum" where
  "js_or_zero v = (if js_truthy v then v else Fin 0)"

text \<open>\<open>JSON.stringify\<close> writes a finite Number as a number, anything else as \<open>null\<close>.\<close>

datatype json_number = JNull | JNumber rat

definition json_of_number :: "jsnum \<Rightarrow> json_number" where
  "json_of_number v = (case v of Fin x \<Rightarrow> JNumber x | _ \<Rightarrow> JNull)"

definition is_negative :: "jsnum \<Rightarrow> bool" where
  "is_negative v = (case v of Fin x \<Rightarrow> x < 0 | NegInf \<Rightarrow> True | _ \<Rightarrow> False)"

subsection \<open>Requests, responses and the page\<close>

type_synonym upload_file = string

text \<open>The object \<open>saveProfile\<close> builds, and the JSON text of it that is sent.\<close>

record profile_object =
  full_name :: string
  dob :: string
  state :: string
  district :: string
  income :: jsnum
  category :: string
  aadhaar_number :: string

record profile_json =
  json_full_name :: string
  json_dob :: string
  json_state :: string
  json_district :: string
  json_income :: json_number
  json_category :: string
  json_aadhaar_number :: string

definition JSON_stringify :: "profile_object \<Rightarrow> profile_json" where
  "JSON_stringify p =
     \<lparr>json_full_name = full_name p, json_dob = dob p, json_state = state p,
      json_district = district p, json_income = json_of_number (income p),
      json_category = category p, json_aadhaar_number = aadhaar_number p\<rparr>"

text \<open>\<open>updateData\<close> of \<open>openEditDoc\<close>.\<close>

record update_data =
  upd_name :: string
  upd_full_name :: string
  upd_dob :: string
  upd_id_number :: string

datatype api_call =
    PutProfile profile_json
  | GetDocuments
  | DeleteDocument int
  | PutDocument int update_data
  | PostUpload string upload_file
  | GetSchemes
  | PostDiscover
  | PostApply int

text \<open>Every request carries the bearer token (\<open>None\<close> is the \<open>null\<close> of a missing one).\<close>

record request =
  bearer :: "string option"
  call :: api_call

text \<open>The fields of a document and of a scheme result that the front end reads.\<close>

record doc_json =
  doc_id :: int
  doc_name :: string
  doc_status :: string
  doc_validation_message :: "string option"

record scheme_json =
  s_id :: int
  s_name :: string
  s_description :: string
  s_benefits :: string
  s_portal_url :: string
  is_eligible :: bool
  reason :: "string option"
  missing_documents :: "string list"

text \<open>
  A response body as the handlers tell bodies apart: one that \<open>res.json()\<close>
  rejects, a JSON object that is no array (with its \<open>detail\<close> as string
  concatenation prints it, \<open>None\<close> when it has none), an array of documents, an
  array of scheme results, or a file.
\<close>

datatype body =
    NotJson
  | ObjectJson "string option"
  | DocsJson "doc_json list"
  | SchemesJson "scheme_json list"
  | Blob string

record response =
  ok :: bool
  body :: body

text \<open>The server: \<open>None\<close> is a request that fails on the network (\<open>fetch\<close> rejects).\<close>

type_synonym 'w server = "request \<Rightarrow> 'w \<Rightarrow> response option \<times> 'w"

datatype event =
    Prompted string string
  | Asked string
  | Alerted string
  | Fetched request
  | Downloaded string
  | Uncaught

fun requests_of :: "event list \<Rightarrow> request list" where
  "requests_of [] = []"
| "requests_of (Fetched r # es) = r # requests_of es"
| "requests_of (_ # es) = requests_of es"

text \<open>The cards of the page: what each shows and what its buttons call.\<close>

record doc_card =
  card_class :: string
  card_title :: string
  badge_class :: string
  badge_text :: string
  card_message :: "string option"
  delete_button :: int
  edit_button :: "int \<times> string"

datatype action =
    KitButtons string int
  | UploadButton string
  | NotEligible

record scheme_card =
  sc_title :: string
  sc_description :: string
  sc_benefits :: string
  sc_reason :: "string option option"
  sc_missing :: "string option"
  sc_action :: action

record page =
  documents_list :: "doc_card list"
  eligible_schemes_list :: "scheme_card list"
  ineligible_schemes_list :: "scheme_card list"

type_synonym 'w outcome = "event list \<times> page \<times> 'w"

subsection \<open>Documents\<close>

text \<open>
  \<open>toUpperCase\<close> on the ASCII letters (the status labels are ASCII; the letters of
  Latin-1 above 127, which JavaScript also maps, are left as they are).
\<close>

definition to_upper :: "char \<Rightarrow> char" where
  "to_upper c =
     (case map_of (zip ''abcdefghijklmnopqrstuvwxyz'' ''ABCDEFGHIJKLMNOPQRSTUVWXYZ'') c of
        None \<Rightarrow> c
      | Some u \<Rightarrow> u)"

definition toUpperCase :: "string \<Rightarrow> string" where
  "toUpperCase s = map to_upper s"

text \<open>
  The card \<open>loadDocuments\<close> builds for one document: the message is shown when it is
  truthy (neither null nor empty), and both buttons are there whatever the status. The
  code pastes the name into the \<open>onclick\<close> text of the edit button as it is, so
  \<open>edit_button\<close> is the call the button makes for a name without a quote; a name
  with one gives a button whose text does not parse and that calls nothing.
\<close>

definition doc_card_of :: "doc_json \<Rightarrow> doc_card" where
  "doc_card_of d =
     \<lparr>card_class = ''card '' @ doc_status d,
      card_title = doc_name d,
      badge_class = ''status-badge status-'' @ doc_status d,
      badge_text = toUpperCase (doc_status d),
      card_message =
        (case doc_validation_message d of
           None \<Rightarrow> None
         | Some m \<Rightarrow> if m = [] then None else Some m),
      delete_button = doc_id d,
      edit_button = (doc_id d, doc_name d)\<rparr>"

text \<open>
  \<open>loadDocuments\<close>: a body that is no JSON leaves the list as it was; a JSON
  value that is no array of documents fails in \<open>forEach\<close>, after the list was
  emptied (an empty array of anything renders as the empty list).
\<close>

definition loadDocuments :: "'w server \<Rightarrow> string option \<Rightarrow> page \<Rightarrow> 'w \<Rightarrow> 'w outcome" where
  "loadDocuments srv token pg w =
     (let req = \<lparr>bearer = token, call = GetDocuments\<rparr> in
      case srv req w of
        (None, w') \<Rightarrow> ([Fetched req, Uncaught], pg, w')
      | (Some res, w') \<Rightarrow>
          (case body res of
             DocsJson docs \<Rightarrow>
               ([Fetched req], pg\<lparr>documents_list := map doc_card_of docs\<rparr>, w')
           | SchemesJson [] \<Rightarrow> ([Fetched req], pg\<lparr>documents_list := []\<rparr>, w')
           | SchemesJson (x # xs) \<Rightarrow>
               ([Fetched req, Uncaught], pg\<lparr>documents_list := []\<rparr>, w')
           | ObjectJson d \<Rightarrow> ([Fetched req, Uncaught], pg\<lparr>documents_list := []\<rparr>, w')
           | NotJson \<Rightarrow> ([Fetched req, Uncaught], pg, w')
           | Blob b \<Rightarrow> ([Fetched req, Uncaught], pg, w')))"

text \<open>
  \<open>openEditDoc(id, currentName)\<close>: four prompts, each answered with a string or
  cancelled (\<open>None\<close>); the first cancelled prompt returns. With four answers the
  update is sent, and the answer decides between the two alerts; on success the list is
  loaded again.
\<close>

definition openEditDoc ::
  "'w server \<Rightarrow> string option \<Rightarrow> int \<Rightarrow> string \<Rightarrow>
   string option \<Rightarrow> string option \<Rightarrow> string option \<Rightarrow> string option \<Rightarrow>
   page \<Rightarrow> 'w \<Rightarrow> 'w outcome" where
  "openEditDoc srv token i currentName a1 a2 a3 a4 pg w =
     (let p1 = Prompted ''Edit Document Name:'' currentName;
          p2 = Prompted ''Enter Name exactly as in Document:'' [];
          p3 = Prompted ''Enter DOB (YYYY-MM-DD):'' [];
          p4 = Prompted ''Enter ID Number (if any):'' [] in
      case a1 of
        None \<Rightarrow> ([p1], pg, w)
      | Some newName \<Rightarrow>
      (case a2 of
        None \<Rightarrow> ([p1, p2], pg, w)
      | Some newFullName \<Rightarrow>
      (case a3 of
        None \<Rightarrow> ([p1, p2, p3], pg, w)
      | Some newDob \<Rightarrow>
      (case a4 of
        None \<Rightarrow> ([p1, p2, p3, p4], pg, w)
      | Some newId \<Rightarrow>
          (let updateData = \<lparr>upd_name = newName, upd_full_name = newFullName,
                              upd_dob = newDob, upd_id_number = newId\<rparr>;
               req = \<lparr>bearer = token, call = PutDocument i updateData\<rparr> in
           case srv req w of
             (None, w') \<Rightarrow> ([p1, p2, p3, p4, Fetched req, Uncaught], pg, w')
           | (Some res, w') \<Rightarrow>
               if ok res then
                 (case loadDocuments srv token pg w' of
                    (es, pg', w'') \<Rightarrow>
                      ([p1, p2, p3, p4, Fetched req,
                        Alerted ''Document Updated & Verified!''] @ es, pg', w''))
               else
                 ([p1, p2, p3, p4, Fetched req, Alerted ''Failed to update document''],
                  pg, w'))))))"

text \<open>
  \<open>uploadDocument\<close>: \<open>name\<close> is the text of the name field, \<open>files\<close> the
  selection of the file field. \<open>!name\<close> holds of the empty string only. After a
  refusal by the server the alert shows the \<open>detail\<close> of the answer.
\<close>

definition uploadDocument ::
  "'w server \<Rightarrow> string option \<Rightarrow> string \<Rightarrow> upload_file list \<Rightarrow> page \<Rightarrow> 'w \<Rightarrow> 'w outcome" where
  "uploadDocument srv token name files pg w =
     (if name = [] \<or> length files = 0 then
        ([Alerted ''Select file and enter name''], pg, w)
      else
        (let req = \<lparr>bearer = token, call = PostUpload name (files ! 0)\<rparr> in
         case srv req w of
           (None, w') \<Rightarrow> ([Fetched req, Uncaught], pg, w')
         | (Some res, w') \<Rightarrow>
             if ok res then
               (case loadDocuments srv token pg w' of
                  (es, pg', w'') \<Rightarrow>
                    ([Fetched req, Alerted ''Uploaded & Verified!''] @ es, pg', w''))
             else
               (case body res of
                  NotJson \<Rightarrow> ([Fetched req, Uncaught], pg, w')
                | Blob b \<Rightarrow> ([Fetched req, Uncaught], pg, w')
                | ObjectJson None \<Rightarrow>
                    ([Fetched req, Alerted ''Error: undefined''], pg, w')
                | ObjectJson (Some d) \<Rightarrow>
                    ([Fetched req, Alerted (''Error: '' @ d)], pg, w')
                | DocsJson ds \<Rightarrow>
                    ([Fetched req, Alerted ''Error: undefined''], pg, w')
                | SchemesJson ss \<Rightarrow>
                    ([Fetched req, Alerted ''Error: undefined''], pg, w'))))"

subsection \<open>Profile\<close>

text \<open>The seven fields of the profile form, as their \<open>value\<close> strings.\<close>

record profile_form =
  prof_name :: string
  prof_dob :: string
  prof_state :: string
  prof_district :: string
  prof_income :: string
  prof_category :: string
  prof_aadhaar :: string

definition profile_of_form :: "profile_form \<Rightarrow> profile_object" where
  "profile_of_form f =
     \<lparr>full_name = prof_name f, dob = prof_dob f, state = prof_state f,
      district = prof_district f,
      income = js_or_zero (parseFloat (prof_income f)),
      category = prof_category f, aadhaar_number = prof_aadhaar f\<rparr>"

definition saveProfile ::
  "'w server \<Rightarrow> string option \<Rightarrow> profile_form \<Rightarrow> page \<Rightarrow> 'w \<Rightarrow> 'w outcome" where
  "saveProfile srv token f pg w =
     (let profile = profile_of_form f;
          req = \<lparr>bearer = token, call = PutProfile (JSON_stringify profile)\<rparr> in
      case srv req w of
        (None, w') \<Rightarrow> ([Fetched req, Uncaught], pg, w')
      | (Some res, w') \<Rightarrow>
          if ok res then ([Fetched req, Alerted ''Profile Saved!''], pg, w')
          else ([Fetched req], pg, w'))"

text \<open>The income a profile write carries: the \<open>income\<close> of each \<open>PutProfile\<close> sent.\<close>

fun incomes_sent :: "request list \<Rightarrow> json_number list" where
  "incomes_sent [] = []"
| "incomes_sent (r # rs) =
     (case call r of
        PutProfile p \<Rightarrow> json_income p # incomes_sent rs
      | _ \<Rightarrow> incomes_sent rs)"

definition nonneg_number :: "json_number \<Rightarrow> bool" where
  "nonneg_number j = (case j of JNull \<Rightarrow> False | JNumber x \<Rightarrow> 0 \<le> x)"

subsection \<open>Schemes\<close>

text \<open>\<open>Array.prototype.join\<close> with a separator.\<close>

fun join :: "string \<Rightarrow> string list \<Rightarrow> string" where
  "join sep [] = []"
| "join sep [x] = x"
| "join sep (x # y # ys) = x @ sep @ join sep (y # ys)"

text \<open>
  The card \<open>renderSchemes\<close> builds for one result. The kit button is there for an
  eligible result only; an ineligible one gets the upload button for its first missing
  document, or the words "Not Eligible". The reason line is shown for every ineligible
  result (whatever \<open>s.reason\<close> holds), the missing line for every non-empty list.
  The label of the upload button is pasted into its \<open>onclick\<close> text as it is, so
  \<open>UploadButton\<close> is the call the button makes for a label without a quote.
\<close>

definition actionBtn :: "scheme_json \<Rightarrow> action" where
  "actionBtn s =
     (if is_eligible s then KitButtons (s_portal_url s) (s_id s)
      else
        (case missing_documents s of
           firstMissing # rest \<Rightarrow> UploadButton firstMissing
         | [] \<Rightarrow> NotEligible))"

definition scheme_card_of :: "scheme_json \<Rightarrow> scheme_card" where
  "scheme_card_of s =
     \<lparr>sc_title = s_name s,
      sc_description = s_description s,
      sc_benefits = s_benefits s,
      sc_reason = (if \<not> is_eligible s then Some (reason s) else None),
      sc_missing =
        (if 0 < length (missing_documents s) then Some (join '', '' (missing_documents s))
         else None),
      sc_action = actionBtn s\<rparr>"

definition clear_schemes :: "page \<Rightarrow> page" where
  "clear_schemes pg = pg\<lparr>eligible_schemes_list := [], ineligible_schemes_list := []\<rparr>"

definition append_scheme :: "page \<Rightarrow> scheme_json \<Rightarrow> page" where
  "append_scheme pg s =
     (if is_eligible s
      then pg\<lparr>eligible_schemes_list := eligible_schemes_list pg @ [scheme_card_of s]\<rparr>
      else pg\<lparr>ineligible_schemes_list := ineligible_schemes_list pg @ [scheme_card_of s]\<rparr>)"

definition renderSchemes :: "scheme_json list \<Rightarrow> page \<Rightarrow> page" where
  "renderSchemes schemes pg = foldl append_scheme (clear_schemes pg) schemes"

text \<open>
  \<open>renderSchemes(await res.json())\<close> on a body: the new page, and whether an
  exception was thrown. A body that is no JSON throws before anything is drawn; a JSON
  value that is no array of results throws after both lists were emptied.
\<close>

definition render_body :: "body \<Rightarrow> page \<Rightarrow> page \<times> bool" where
  "render_body b pg =
     (case b of
        SchemesJson schemes \<Rightarrow> (renderSchemes schemes pg, False)
      | DocsJson [] \<Rightarrow> (renderSchemes [] pg, False)
      | DocsJson (d # ds) \<Rightarrow> (clear_schemes pg, True)
      | ObjectJson d \<Rightarrow> (clear_schemes pg, True)
      | NotJson \<Rightarrow> (pg, True)
      | Blob f \<Rightarrow> (pg, True))"

definition loadSchemes :: "'w server \<Rightarrow> string option \<Rightarrow> page \<Rightarrow> 'w \<Rightarrow> 'w outcome" where
  "loadSchemes srv token pg w =
     (let req = \<lparr>bearer = token, call = GetSchemes\<rparr> in
      case srv req w of
        (None, w') \<Rightarrow> ([Fetched req, Uncaught], pg, w')
      | (Some res, w') \<Rightarrow>
          (case render_body (body res) pg of
             (pg', threw) \<Rightarrow> (if threw then [Fetched req, Uncaught] else [Fetched req], pg', w')))"

text \<open>\<open>discoverSchemes\<close> catches every failure and reports it.\<close>

definition discoverSchemes :: "'w server \<Rightarrow> string option \<Rightarrow> page \<Rightarrow> 'w \<Rightarrow> 'w outcome" where
  "discoverSchemes srv token pg w =
     (let req = \<lparr>bearer = token, call = PostDiscover\<rparr> in
      case srv req w of
        (None, w') \<Rightarrow> ([Fetched req, Alerted ''Discovery failed''], pg, w')
      | (Some res, w') \<Rightarrow>
          (case render_body (body res) pg of
             (pg', threw) \<Rightarrow>
               (if threw then [Fetched req, Alerted ''Discovery failed''] else [Fetched req],
                pg', w')))"

text \<open>
  \<open>downloadKit(schemeId)\<close> sends the scheme's id and the token, nothing else, and
  saves the answer as a file when the server accepts.
\<close>

definition downloadKit :: "'w server \<Rightarrow> string option \<Rightarrow> int \<Rightarrow> page \<Rightarrow> 'w \<Rightarrow> 'w outcome" where
  "downloadKit srv token schemeId pg w =
     (let req = \<lparr>bearer = token, call = PostApply schemeId\<rparr> in
      case srv req w of
        (None, w') \<Rightarrow> ([Fetched req, Uncaught], pg, w')
      | (Some res, w') \<Rightarrow>
          if ok res then ([Fetched req, Downloaded ''Application_Kit.pdf''], pg, w')
          else ([Fetched req, Alerted ''Failed to generate kit''], pg, w'))"

text \<open>The schemes whose kit button is on the page: the only callers of \<open>downloadKit\<close>.\<close>

fun kit_ids :: "scheme_card list \<Rightarrow> int list" where
  "kit_ids [] = []"
| "kit_ids (c # cs) =
     (case sc_action c of
        KitButtons url i \<Rightarrow> i # kit_ids cs
      | _ \<Rightarrow> kit_ids cs)"

definition kit_buttons :: "page \<Rightarrow> int list" where
  "kit_buttons pg = kit_ids (eligible_schemes_list pg) @ kit_ids (ineligible_schemes_list pg)"

text \<open>
  \<open>deleteDoc(id)\<close>: nothing is sent unless the question is answered with yes.
\<close>

definition deleteDoc :: "'w server \<Rightarrow> string option \<Rightarrow> int \<Rightarrow> bool \<Rightarrow> page \<Rightarrow> 'w \<Rightarrow> 'w outcome" where
  "deleteDoc srv token i yes pg w =
     (let q = Asked ''Are you sure you want to delete this document?'';
          req = \<lparr>bearer = token, call = DeleteDocument i\<rparr> in
      if \<not> yes then ([q], pg, w)
      else
        (case srv req w of
           (None, w') \<Rightarrow> ([q, Fetched req, Uncaught], pg, w')
         | (Some res, w') \<Rightarrow>
             if ok res then
               (case loadDocuments srv token pg w' of
                  (es, pg', w'') \<Rightarrow> ([q, Fetched req] @ es, pg', w''))
             else ([q, Fetched req, Alerted ''Failed to delete document''], pg, w')))"

subsection \<open>A server and a page to run the handlers on\<close>

text \<open>
  A server that accepts every request, answers with an empty list and counts the
  requests it has seen; and the page before anything was drawn.
\<close>

definition counting_server :: "nat server" where
  "counting_server r n = (Some \<lparr>ok = True, body = DocsJson []\<rparr>, Suc n)"

definition empty_page :: page where
  "empty_page =
     \<lparr>documents_list = [], eligible_schemes_list = [], ineligible_schemes_list = []\<rparr>"

section \<open>The eligibility evaluator, from the specification\<close>

text \<open>
  The rule engine runs on the server, whose code is not among the repository's files
  under \<open>src/\<close>: the front end only draws the results it is sent. The evaluation of
  one scheme is therefore written from the specification (its sections 3 and 4.3),
  step by step.
\<close>

subsection \<open>The data model\<close>

text \<open>
  Modelled from the spec: the Profile record, which the server keeps and \<open>src/\<close> does
  not declare (section 3). Every field is optional; a date is year, month and day.
\<close>

type_synonym date = "nat \<times> nat \<times> nat"

record profile =
  pf_full_name :: "string option"
  pf_dob :: "date option"
  pf_state :: "string option"
  pf_district :: "string option"
  pf_income :: "rat option"
  pf_category :: "string option"
  pf_national_id :: "string option"
  pf_role :: "string option"

text \<open>
  Modelled from the spec: the lifecycle status of a Document, which the server assigns
  (section 4.2: pending, verified, mismatch, extraction_failed).
\<close>

datatype status = Pending | Verified | Mismatch | ExtractionFailed

text \<open>
  Modelled from the spec: the Document record of the server (section 3), with the
  attributes the evaluator reads and the message that goes with the status.
\<close>

record document =
  document_id :: int
  display_name :: string
  file_reference :: string
  lifecycle_status :: status
  validation_message :: "string option"

text \<open>
  Modelled from the spec: the structured rule that is a scheme's eligibility predicate
  (section 3: income ceiling, category set, date-of-birth range, state and district
  match, role match). The server's catalog is not under \<open>src/\<close>. A criterion that is
  \<open>None\<close> is not part of the rule.
\<close>

record rule =
  income_ceiling :: "rat option"
  category_set :: "string list option"
  dob_range :: "(date \<times> date) option"
  state_match :: "string option"
  district_match :: "string option"
  role_match :: "string option"

text \<open>
  Modelled from the spec: the Scheme record of the server's catalog (section 3).
\<close>

record scheme =
  scheme_id :: int
  scheme_name :: string
  scheme_description :: string
  scheme_benefits :: string
  scheme_portal_url :: string
  required_documents :: "string list"
  predicate :: rule

text \<open>
  Modelled from the spec: the EligibilityResult record that the server's evaluator
  returns (section 3). The reason is \<open>None\<close> when it is omitted.
\<close>

record eligibility_result =
  scheme_ref :: int
  eligible :: bool
  result_reason :: "string option"
  result_missing :: "string list"

subsection \<open>Step 1: the predicate\<close>

text \<open>
  Modelled from the spec: the order of two calendar dates, for the date-of-birth range
  of the server's rule (section 3).
\<close>

definition date_le :: "date \<Rightarrow> date \<Rightarrow> bool" where
  "date_le a b =
     (case a of (y1, m1, d1) \<Rightarrow>
        case b of (y2, m2, d2) \<Rightarrow>
          y1 < y2 \<or> (y1 = y2 \<and> (m1 < m2 \<or> (m1 = m2 \<and> d1 \<le> d2))))"

text \<open>
  Modelled from the spec: the income criterion of the server's predicate (section 4.3,
  step 1). A criterion answers \<open>None\<close> when it holds and the reason when it fails; a
  field it needs and the profile lacks is a failure whose reason names the field, never
  an error. The wording "income exceeds ceiling" is the spec's.
\<close>

definition check_income :: "rule \<Rightarrow> profile \<Rightarrow> string option" where
  "check_income r p =
     (case income_ceiling r of
        None \<Rightarrow> None
      | Some limit \<Rightarrow>
          (case pf_income p of
             None \<Rightarrow> Some ''income missing''
           | Some i \<Rightarrow> if i \<le> limit then None else Some ''income exceeds ceiling''))"

text \<open>
  Modelled from the spec: the category criterion of the server's predicate (section
  4.3, step 1). The wording "category not eligible" is the spec's.
\<close>

definition check_category :: "rule \<Rightarrow> profile \<Rightarrow> string option" where
  "check_category r p =
     (case category_set r of
        None \<Rightarrow> None
      | Some cs \<Rightarrow>
          (case pf_category p of
             None \<Rightarrow> Some ''category missing''
           | Some c \<Rightarrow> if c \<in> set cs then None else Some ''category not eligible''))"

text \<open>
  Modelled from the spec: the date-of-birth criterion of the server's predicate
  (section 4.3, step 1), both ends of the range included.
\<close>

definition check_dob :: "rule \<Rightarrow> profile \<Rightarrow> string option" where
  "check_dob r p =
     (case dob_range r of
        None \<Rightarrow> None
      | Some (lo, hi) \<Rightarrow>
          (case pf_dob p of
             None \<Rightarrow> Some ''date of birth missing''
           | Some d \<Rightarrow>
               if date_le lo d \<and> date_le d hi then None
               else Some ''date of birth out of range''))"

text \<open>
  Modelled from the spec: the criteria of the server's predicate that ask for a given
  state, district or role (section 4.3, step 1); the reason names the field.
\<close>

definition check_match :: "string \<Rightarrow> string option \<Rightarrow> string option \<Rightarrow> string option" where
  "check_match field wanted have =
     (case wanted of
        None \<Rightarrow> None
      | Some v \<Rightarrow>
          (case have of
             None \<Rightarrow> Some (field @ '' missing'')
           | Some x \<Rightarrow> if x = v then None else Some (field @ '' does not match'')))"

text \<open>
  Modelled from the spec: how the server's predicate picks its reason. The spec asks
  for a reason that names the failing field; the first failing criterion gives it.
\<close>

fun first_failure :: "string option list \<Rightarrow> string option" where
  "first_failure [] = None"
| "first_failure (None # cs) = first_failure cs"
| "first_failure (Some why # cs) = Some why"

text \<open>
  Modelled from the spec: the predicate of a scheme against a profile, on the server
  (section 4.3, step 1). The criteria are tried in the order section 3 lists them.
\<close>

definition predicate_failure :: "rule \<Rightarrow> profile \<Rightarrow> string option" where
  "predicate_failure r p =
     first_failure
       [check_income r p, check_category r p, check_dob r p,
        check_match ''state'' (state_match r) (pf_state p),
        check_match ''district'' (district_match r) (pf_district p),
        check_match ''role'' (role_match r) (pf_role p)]"

text \<open>
  Modelled from the spec: "the predicate holds" of the server's evaluator is that no
  criterion fails.
\<close>

definition predicate_holds :: "rule \<Rightarrow> profile \<Rightarrow> bool" where
  "predicate_holds r p = (predicate_failure r p = None)"

subsection \<open>Step 2: the missing documents\<close>

text \<open>
  Modelled from the spec: the case-insensitive comparison of the server's evaluator
  (section 4.3, step 2). The spec does not say which letters it folds; here the ASCII
  letters are folded and every other character is compared as it is.
\<close>

definition to_lower :: "char \<Rightarrow> char" where
  "to_lower c =
     (case map_of (zip ''ABCDEFGHIJKLMNOPQRSTUVWXYZ'' ''abcdefghijklmnopqrstuvwxyz'') c of
        None \<Rightarrow> c
      | Some l \<Rightarrow> l)"

text \<open>
  Modelled from the spec: when a document satisfies a required label, on the server
  (section 4.3, step 2): its display name matches the label without regard to case and
  its status is verified. A document in any other status does not satisfy it.
\<close>

definition satisfies_requirement :: "document \<Rightarrow> string \<Rightarrow> bool" where
  "satisfies_requirement d label =
     (map to_lower (display_name d) = map to_lower label \<and> lifecycle_status d = Verified)"

text \<open>
  Modelled from the spec: the missing documents of a scheme, on the server (section
  4.3, step 2): the required labels that no document of the user satisfies, in the
  order the scheme lists them.
\<close>

definition missing_documents_of :: "document list \<Rightarrow> scheme \<Rightarrow> string list" where
  "missing_documents_of docs s =
     filter (\<lambda>label. \<not> list_ex (\<lambda>d. satisfies_requirement d label) docs)
       (required_documents s)"

subsection \<open>Steps 3 and 4: the result\<close>

text \<open>
  Modelled from the spec: the server's evaluation of one scheme of the catalog (section
  4.3, "Algorithm per scheme", steps 3 and 4). The result is eligible when the
  predicate holds and no document is missing; its reason is the predicate's failure
  reason, omitted when the predicate holds.
\<close>

definition evaluate_scheme :: "profile \<Rightarrow> document list \<Rightarrow> scheme \<Rightarrow> eligibility_result" where
  "evaluate_scheme p docs s =
     (let failure = predicate_failure (predicate s) p;
          missing = missing_documents_of docs s in
      \<lparr>scheme_ref = scheme_id s,
       eligible = (failure = None \<and> missing = []),
       result_reason = failure,
       result_missing = missing\<rparr>)"

subsection \<open>The scenarios of the specification's section 8\<close>

text \<open>
  A profile with an income of 50000 in the category "general"; a scheme with an income
  ceiling of 40000 and one that is open to the category; both require an income
  certificate; and the user's income certificate in a given status.
\<close>

definition asha :: profile where
  "asha =
     \<lparr>pf_full_name = Some ''Asha Rao'', pf_dob = Some (1990, 5, 1),
      pf_state = Some ''Gujarat'', pf_district = Some ''Surat'',
      pf_income = Some 50000, pf_category = Some ''general'',
      pf_national_id = Some ''123412341234'', pf_role = Some ''student''\<rparr>"

definition no_rule :: rule where
  "no_rule =
     \<lparr>income_ceiling = None, category_set = None, dob_range = None,
      state_match = None, district_match = None, role_match = None\<rparr>"

definition low_income_scheme :: scheme where
  "low_income_scheme =
     \<lparr>scheme_id = 1, scheme_name = ''Scholarship'', scheme_description = ''Support'',
      scheme_benefits = ''Fees'', scheme_portal_url = ''https://example.org'',
      required_documents = [''Income Certificate''],
      predicate = no_rule\<lparr>income_ceiling := Some 40000\<rparr>\<rparr>"

definition open_scheme :: scheme where
  "open_scheme =
     \<lparr>scheme_id = 2, scheme_name = ''Grant'', scheme_description = ''Support'',
      scheme_benefits = ''Cash'', scheme_portal_url = ''https://example.org'',
      required_documents = [''Income Certificate''],
      predicate = no_rule\<lparr>category_set := Some [''general'']\<rparr>\<rparr>"

definition income_certificate :: "status \<Rightarrow> document" where
  "income_certificate st =
     \<lparr>document_id = 7, display_name = ''income certificate'', file_reference = ''f7'',
      lifecycle_status = st,
      validation_message = (if st = Verified then None else Some ''Mismatch: full_name'')\<rparr>"

section \<open>Properties of the front end\<close>

subsection \<open>The manual edit and verify flow\<close>

text \<open>
  With four answers the prompts are followed by exactly the update that carries all
  four of them.
\<close>

lemma openEditDoc_answered:
  "\<exists>es pg' w'. openEditDoc srv token i currentName (Some n) (Some f) (Some d) (Some k) pg w =
     ([Prompted ''Edit Document Name:'' currentName,
       Prompted ''Enter Name exactly as in Document:'' [],
       Prompted ''Enter DOB (YYYY-MM-DD):'' [],
       Prompted ''Enter ID Number (if any):'' [],
       Fetched \<lparr>bearer = token, call = PutDocument i
          \<lparr>upd_name = n, upd_full_name = f, upd_dob = d, upd_id_number = k\<rparr>\<rparr>] @ es, pg', w')"
  by (auto simp: openEditDoc_def Let_def split: option.splits prod.splits)

text \<open>
  C10. Cancelling any of the four prompts of \<open>openEditDoc\<close> (the document name, the
  full name, the date of birth or the ID number) ends the operation before any request
  is issued: the trace holds no request, and the page and the state of the server are
  what they were. This holds for every server, so no partial answer is ever sent.
\<close>

theorem openEditDoc_cancel_sends_nothing:
  assumes "a1 = None \<or> a2 = None \<or> a3 = None \<or> a4 = None"
  shows "requests_of (fst (openEditDoc srv token i currentName a1 a2 a3 a4 pg w)) = []
       \<and> snd (openEditDoc srv token i currentName a1 a2 a3 a4 pg w) = (pg, w)"
  using assms
  by (cases a1; cases a2; cases a3; cases a4) (simp_all add: openEditDoc_def Let_def)

text \<open>
  The third prompt cancelled, on the server that counts its requests: the count stays
  at zero.
\<close>

theorem openEditDoc_cancel_sends_nothing_witness:
  "requests_of (fst (openEditDoc counting_server (Some ''tok'') 7 ''Aadhaar''
      (Some ''Aadhaar Card'') (Some ''Asha Rao'') None (Some ''1234'') empty_page 0)) = []
   \<and> snd (openEditDoc counting_server (Some ''tok'') 7 ''Aadhaar''
      (Some ''Aadhaar Card'') (Some ''Asha Rao'') None (Some ''1234'') empty_page 0)
       = (empty_page, 0)"
  using openEditDoc_cancel_sends_nothing
    [where ?a1.0 = "Some ''Aadhaar Card''" and ?a2.0 = "Some ''Asha Rao''"
       and ?a3.0 = None and ?a4.0 = "Some ''1234''" and srv = counting_server
       and token = "Some ''tok''" and i = 7 and currentName = "''Aadhaar''"
       and pg = empty_page and w = 0]
  by simp

subsection \<open>Uploading a document\<close>

lemma uploadDocument_rejected:
  "name = [] \<or> files = [] \<Longrightarrow>
     uploadDocument srv token name files pg w =
       ([Alerted ''Select file and enter name''], pg, w)"
  by (auto simp: uploadDocument_def)

lemma uploadDocument_sent:
  "name \<noteq> [] \<Longrightarrow> files \<noteq> [] \<Longrightarrow>
     \<exists>es pg' w'. uploadDocument srv token name files pg w =
        (Fetched \<lparr>bearer = token, call = PostUpload name (files ! 0)\<rparr> # es, pg', w')"
  by (auto simp: uploadDocument_def Let_def split: option.splits prod.splits body.splits)

lemma uploadDocument_accepted:
  "name \<noteq> [] \<Longrightarrow> files \<noteq> [] \<Longrightarrow>
   srv \<lparr>bearer = token, call = PostUpload name (files ! 0)\<rparr> w = (Some res, w1) \<Longrightarrow>
   ok res \<Longrightarrow>
     \<exists>es pg' w'. uploadDocument srv token name files pg w =
        ([Fetched \<lparr>bearer = token, call = PostUpload name (files ! 0)\<rparr>,
          Alerted ''Uploaded & Verified!''] @ es, pg', w')"
  by (auto simp: uploadDocument_def Let_def split: option.splits prod.splits body.splits)

text \<open>
  What the server refuses, the front end reports: the alert shows the \<open>detail\<close> of
  the refusal, whatever the reason for it, and the list is not loaded again. So whether
  an upload is ever refused for what its extraction or matching gave is decided by the
  server alone.
\<close>

lemma uploadDocument_refused:
  "name \<noteq> [] \<Longrightarrow> files \<noteq> [] \<Longrightarrow>
   srv \<lparr>bearer = token, call = PostUpload name (files ! 0)\<rparr> w =
     (Some \<lparr>ok = False, body = ObjectJson (Some d)\<rparr>, w1) \<Longrightarrow>
     uploadDocument srv token name files pg w =
       ([Fetched \<lparr>bearer = token, call = PostUpload name (files ! 0)\<rparr>,
         Alerted (''Error: '' @ d)], pg, w1)"
  by (simp add: uploadDocument_def Let_def)

text \<open>
  The check \<open>uploadDocument\<close> makes before it sends anything: it ends at once, with
  the alert and without a request, exactly when the name is empty or no file is
  selected. With a name and a file the upload is always sent, and an upload the server
  accepts is reported as success.
\<close>

theorem uploadDocument_rejects_iff_structural:
  "((uploadDocument srv token name files pg w =
       ([Alerted ''Select file and enter name''], pg, w))
      = (name = [] \<or> files = []))
   \<and> ((requests_of (fst (uploadDocument srv token name files pg w)) = [])
      = (name = [] \<or> files = []))
   \<and> (name \<noteq> [] \<and> files \<noteq> [] \<longrightarrow>
      (\<exists>es pg' w'. uploadDocument srv token name files pg w =
         (Fetched \<lparr>bearer = token, call = PostUpload name (files ! 0)\<rparr> # es, pg', w')))
   \<and> (name \<noteq> [] \<and> files \<noteq> []
       \<and> srv \<lparr>bearer = token, call = PostUpload name (files ! 0)\<rparr> w = (Some res, w1)
       \<and> ok res \<longrightarrow>
      (\<exists>es pg' w'. uploadDocument srv token name files pg w =
         ([Fetched \<lparr>bearer = token, call = PostUpload name (files ! 0)\<rparr>,
           Alerted ''Uploaded & Verified!''] @ es, pg', w')))"
proof -
  have rejected: "name = [] \<or> files = [] \<Longrightarrow>
      uploadDocument srv token name files pg w =
        ([Alerted ''Select file and enter name''], pg, w)"
    by (rule uploadDocument_rejected)
  have sent: "name \<noteq> [] \<and> files \<noteq> [] \<Longrightarrow>
      \<exists>es pg' w'. uploadDocument srv token name files pg w =
        (Fetched \<lparr>bearer = token, call = PostUpload name (files ! 0)\<rparr> # es, pg', w')"
    using uploadDocument_sent [of name files srv token pg w] by simp
  have first: "(uploadDocument srv token name files pg w =
       ([Alerted ''Select file and enter name''], pg, w)) = (name = [] \<or> files = [])"
    using rejected sent by (cases "name = [] \<or> files = []") auto
  have second: "(requests_of (fst (uploadDocument srv token name files pg w)) = [])
      = (name = [] \<or> files = [])"
    using rejected sent by (cases "name = [] \<or> files = []") auto
  show ?thesis
    using first second sent uploadDocument_accepted [of name files srv token w res w1 pg]
    by blast
qed

text \<open>
  No name, then no file, then both: the first two raise the alert and leave the
  request count at zero, the third sends the upload.
\<close>

theorem uploadDocument_rejects_iff_structural_witness:
  "uploadDocument counting_server (Some ''tok'') [] [''bytes''] empty_page 0 =
     ([Alerted ''Select file and enter name''], empty_page, 0)
   \<and> uploadDocument counting_server (Some ''tok'') ''Income Certificate'' [] empty_page 0 =
     ([Alerted ''Select file and enter name''], empty_page, 0)
   \<and> (\<exists>es pg' w'.
        uploadDocument counting_server (Some ''tok'') ''Income Certificate'' [''bytes'']
            empty_page 0 =
          ([Fetched \<lparr>bearer = Some ''tok'',
                    call = PostUpload ''Income Certificate'' ''bytes''\<rparr>,
            Alerted ''Uploaded & Verified!''] @ es, pg', w'))"
  using uploadDocument_rejects_iff_structural
      [where name = "[]" and files = "[''bytes'']" and srv = counting_server
         and token = "Some ''tok''" and pg = empty_page and w = 0]
    uploadDocument_rejects_iff_structural
      [where name = "''Income Certificate''" and files = "[]" and srv = counting_server
         and token = "Some ''tok''" and pg = empty_page and w = 0]
    uploadDocument_rejects_iff_structural
      [where name = "''Income Certificate''" and files = "[''bytes'']"
         and srv = counting_server and token = "Some ''tok''" and pg = empty_page and w = 0
         and res = "\<lparr>ok = True, body = DocsJson []\<rparr>" and ?w1.0 = 1]
  by (simp add: counting_server_def)

subsection \<open>Saving the profile\<close>

lemma saveProfile_requests:
  "requests_of (fst (saveProfile srv token f pg w)) =
     [\<lparr>bearer = token, call = PutProfile (JSON_stringify (profile_of_form f))\<rparr>]"
  by (simp add: saveProfile_def Let_def split: prod.splits option.splits)

lemma parseFloat_minus_five: "parseFloat ''-5'' = Fin (- 5)"
  by (simp add: parseFloat_def is_js_space_def parse_unsigned_def is_digit_def
      digits_value_def digit_value_def number_of_mv_def js_negate_def)

text \<open>
  C9, as stated, fails: with \<open>-5\<close> in the income field the one profile write that
  \<open>saveProfile\<close> sends carries the income \<open>-5\<close>, which is not a non-negative number.
\<close>

theorem saveProfile_negative_income_counterexample:
  "incomes_sent (requests_of (fst (saveProfile counting_server (Some ''tok'')
      \<lparr>prof_name = ''Asha Rao'', prof_dob = ''1990-05-01'', prof_state = ''Gujarat'',
       prof_district = ''Surat'', prof_income = ''-5'', prof_category = ''general'',
       prof_aadhaar = ''123412341234''\<rparr> empty_page 0))) = [JNumber (- 5)]
   \<and> \<not> nonneg_number (JNumber (- 5))"
  by (simp add: saveProfile_requests JSON_stringify_def profile_of_form_def
      parseFloat_minus_five js_or_zero_def js_truthy_def json_of_number_def
      nonneg_number_def)

text \<open>
  C9, amended. Every run of \<open>saveProfile\<close> sends one profile write, and its income is
  what \<open>parseFloat\<close> reads from the income field: the number itself when it is finite
  (a negative one included), \<open>0\<close> when there is none (NaN), and \<open>null\<close> when it is
  an infinity. So the income sent is a non-negative number exactly when the text of the
  field parses to NaN or to a finite number that is not negative.
\<close>

theorem saveProfile_income_sent:
  "incomes_sent (requests_of (fst (saveProfile srv token f pg w))) =
     [case parseFloat (prof_income f) of
        NaN \<Rightarrow> JNumber 0 | Fin x \<Rightarrow> JNumber x | PosInf \<Rightarrow> JNull | NegInf \<Rightarrow> JNull]
   \<and> (list_all nonneg_number (incomes_sent (requests_of (fst (saveProfile srv token f pg w))))
        \<longleftrightarrow> parseFloat (prof_income f) = NaN
             \<or> (\<exists>x. 0 \<le> x \<and> parseFloat (prof_income f) = Fin x))"
  by (cases "parseFloat (prof_income f)")
     (auto simp add: saveProfile_requests JSON_stringify_def profile_of_form_def
        js_or_zero_def js_truthy_def json_of_number_def nonneg_number_def)

text \<open>
  Which texts parse to a negative number: only those whose first character after the
  leading white space is the minus sign.
\<close>

lemma number_of_mv_not_negative: "0 \<le> v \<Longrightarrow> \<not> is_negative (number_of_mv v)"
  by (simp add: number_of_mv_def is_negative_def)

lemma pow10_nonneg: "0 \<le> pow10 e"
  by (simp add: pow10_def)

lemma parse_unsigned_not_negative: "\<not> is_negative (parse_unsigned s)"
  by (auto simp: parse_unsigned_def Let_def is_negative_def pow10_nonneg
      intro!: number_of_mv_not_negative[unfolded is_negative_def] split: list.splits)

lemma parseFloat_negative_minus:
  assumes "is_negative (parseFloat s)"
  shows "\<exists>r. dropWhile is_js_space s = CHR ''-'' # r"
proof (cases "dropWhile is_js_space s")
  case Nil
  with assms show ?thesis by (simp add: parseFloat_def is_negative_def)
next
  case (Cons c r)
  show ?thesis
  proof (cases "c = CHR ''-''")
    case True
    with Cons show ?thesis by simp
  next
    case False
    with Cons have "parseFloat s = parse_unsigned r \<or> parseFloat s = parse_unsigned (c # r)"
      by (simp add: parseFloat_def)
    with assms parse_unsigned_not_negative show ?thesis by metis
  qed
qed

subsection \<open>The cards of the schemes\<close>

text \<open>
  \<open>renderSchemes\<close> draws the kit button for the eligible results of the list it is
  given and for no other, and \<open>downloadKit\<close> sends the scheme's id and nothing about
  its eligibility. Whether the server then checks the scheme again is the server's.
\<close>

lemma foldl_append_scheme_eligible:
  "eligible_schemes_list (foldl append_scheme pg ss) =
     eligible_schemes_list pg @ map scheme_card_of (filter is_eligible ss)"
  by (induction ss arbitrary: pg) (auto simp: append_scheme_def)

lemma foldl_append_scheme_ineligible:
  "ineligible_schemes_list (foldl append_scheme pg ss) =
     ineligible_schemes_list pg @ map scheme_card_of (filter (\<lambda>s. \<not> is_eligible s) ss)"
  by (induction ss arbitrary: pg) (auto simp: append_scheme_def)

lemma kit_ids_eligible:
  "kit_ids (map scheme_card_of (filter is_eligible ss)) = map s_id (filter is_eligible ss)"
  by (induction ss) (auto simp: scheme_card_of_def actionBtn_def)

lemma kit_ids_ineligible:
  "kit_ids (map scheme_card_of (filter (\<lambda>s. \<not> is_eligible s) ss)) = []"
  by (induction ss) (auto simp: scheme_card_of_def actionBtn_def split: list.splits)

lemma renderSchemes_kit_buttons:
  "kit_buttons (renderSchemes schemes pg) = map s_id (filter is_eligible schemes)"
  by (simp add: kit_buttons_def renderSchemes_def foldl_append_scheme_eligible
      foldl_append_scheme_ineligible clear_schemes_def kit_ids_eligible kit_ids_ineligible)

text \<open>
  The card of an ineligible result always has its reason line, with whatever the result
  holds as its reason (also none); the card of an eligible one has none.
\<close>

lemma scheme_card_reason_line:
  "sc_reason (scheme_card_of s) = (if is_eligible s then None else Some (reason s))"
  by (simp add: scheme_card_of_def)

lemma downloadKit_request:
  "requests_of (fst (downloadKit srv token i pg w)) = [\<lparr>bearer = token, call = PostApply i\<rparr>]"
  by (simp add: downloadKit_def Let_def split: prod.splits option.splits)

section \<open>Properties of the evaluator\<close>

lemma check_income_nonempty: "check_income r p = Some t \<Longrightarrow> t \<noteq> []"
  by (auto simp: check_income_def split: option.splits if_splits)

lemma check_category_nonempty: "check_category r p = Some t \<Longrightarrow> t \<noteq> []"
  by (auto simp: check_category_def split: option.splits if_splits)

lemma check_dob_nonempty: "check_dob r p = Some t \<Longrightarrow> t \<noteq> []"
  by (auto simp: check_dob_def split: option.splits if_splits prod.splits)

lemma check_match_nonempty: "check_match f a b = Some t \<Longrightarrow> t \<noteq> []"
  by (auto simp: check_match_def split: option.splits if_splits)

lemma first_failure_in: "first_failure cs = Some t \<Longrightarrow> Some t \<in> set cs"
  by (induction cs rule: first_failure.induct) auto

lemma predicate_failure_nonempty: "predicate_failure r p = Some t \<Longrightarrow> t \<noteq> []"
  unfolding predicate_failure_def
  by (drule first_failure_in)
     (auto dest: check_income_nonempty[OF sym] check_category_nonempty[OF sym]
        check_dob_nonempty[OF sym] check_match_nonempty[OF sym])

text \<open>The scenarios, evaluated.\<close>

lemma scenario_income_ceiling:
  "evaluate_scheme asha docs low_income_scheme =
     \<lparr>scheme_ref = 1, eligible = False, result_reason = Some ''income exceeds ceiling'',
      result_missing = missing_documents_of docs low_income_scheme\<rparr>"
  by (simp add: evaluate_scheme_def asha_def low_income_scheme_def predicate_failure_def
      check_income_def check_category_def check_dob_def check_match_def no_rule_def)

lemma scenario_certificate_mismatch:
  "evaluate_scheme asha [income_certificate Mismatch] open_scheme =
     \<lparr>scheme_ref = 2, eligible = False, result_reason = None,
      result_missing = [''Income Certificate'']\<rparr>"
  by (simp add: evaluate_scheme_def asha_def income_certificate_def open_scheme_def
      predicate_failure_def check_income_def check_category_def check_dob_def
      check_match_def no_rule_def missing_documents_of_def satisfies_requirement_def
      to_lower_def)

lemma scenario_certificate_verified:
  "evaluate_scheme asha [income_certificate Verified] open_scheme =
     \<lparr>scheme_ref = 2, eligible = True, result_reason = None, result_missing = []\<rparr>"
  by (simp add: evaluate_scheme_def asha_def income_certificate_def open_scheme_def
      predicate_failure_def check_income_def check_category_def check_dob_def
      check_match_def no_rule_def missing_documents_of_def satisfies_requirement_def
      to_lower_def)

text \<open>
  C1. The result of evaluating a scheme obeys the invariant of the EligibilityResult: if
  it is eligible then its list of missing documents is empty and the scheme's predicate
  holds of the profile; if it is not eligible then it carries the predicate's reason,
  which is not empty, or a list of missing documents that is not empty (or both).
\<close>

theorem evaluate_scheme_invariant:
  "(eligible (evaluate_scheme p docs s) \<longrightarrow>
      result_missing (evaluate_scheme p docs s) = [] \<and> predicate_holds (predicate s) p)
   \<and> (\<not> eligible (evaluate_scheme p docs s) \<longrightarrow>
      (\<exists>t. result_reason (evaluate_scheme p docs s) = Some t \<and> t \<noteq> []
           \<and> predicate_failure (predicate s) p = Some t)
      \<or> result_missing (evaluate_scheme p docs s) \<noteq> [])"
  using predicate_failure_nonempty [of "predicate s" p]
  by (cases "predicate_failure (predicate s) p")
     (simp_all add: evaluate_scheme_def Let_def predicate_holds_def)

text \<open>
  An eligible result (the certificate verified), and two that are not: one for its
  missing certificate, one for the income above the ceiling.
\<close>

theorem evaluate_scheme_invariant_witness:
  "eligible (evaluate_scheme asha [income_certificate Verified] open_scheme)
   \<and> result_missing (evaluate_scheme asha [income_certificate Verified] open_scheme) = []
   \<and> predicate_holds (predicate open_scheme) asha
   \<and> \<not> eligible (evaluate_scheme asha [income_certificate Mismatch] open_scheme)
   \<and> result_missing (evaluate_scheme asha [income_certificate Mismatch] open_scheme) \<noteq> []
   \<and> \<not> eligible (evaluate_scheme asha [] low_income_scheme)
   \<and> result_reason (evaluate_scheme asha [] low_income_scheme) = Some ''income exceeds ceiling''"
  using evaluate_scheme_invariant [of asha "[income_certificate Verified]" open_scheme]
    evaluate_scheme_invariant [of asha "[income_certificate Mismatch]" open_scheme]
    evaluate_scheme_invariant [of asha "[]" low_income_scheme]
  by (simp add: scenario_income_ceiling scenario_certificate_mismatch
      scenario_certificate_verified)

text \<open>
  C3. When the predicate of the scheme fails, the reason of the result is the
  predicate's failure reason whatever the documents are (the same for any two sets of
  documents), and the result is not eligible. When the predicate holds and required
  documents are missing, the reason is omitted, the list of missing documents is the
  one computed from the documents, and the result is not eligible.
\<close>

theorem evaluate_scheme_reason:
  "(predicate_failure (predicate s) p = Some t \<longrightarrow>
      result_reason (evaluate_scheme p docs s) = Some t
      \<and> result_reason (evaluate_scheme p docs' s) = Some t
      \<and> \<not> eligible (evaluate_scheme p docs s))
   \<and> (predicate_holds (predicate s) p \<and> missing_documents_of docs s \<noteq> [] \<longrightarrow>
      result_reason (evaluate_scheme p docs s) = None
      \<and> result_missing (evaluate_scheme p docs s) = missing_documents_of docs s
      \<and> result_missing (evaluate_scheme p docs s) \<noteq> []
      \<and> \<not> eligible (evaluate_scheme p docs s))"
proof (intro conjI impI)
  assume fails: "predicate_failure (predicate s) p = Some t"
  then show "result_reason (evaluate_scheme p docs s) = Some t"
    by (simp add: evaluate_scheme_def Let_def)
  from fails show "result_reason (evaluate_scheme p docs' s) = Some t"
    by (simp add: evaluate_scheme_def Let_def)
  from fails show "\<not> eligible (evaluate_scheme p docs s)"
    by (simp add: evaluate_scheme_def Let_def)
next
  assume "predicate_holds (predicate s) p \<and> missing_documents_of docs s \<noteq> []"
  then have holds: "predicate_failure (predicate s) p = None"
    and missing: "missing_documents_of docs s \<noteq> []"
    by (simp_all add: predicate_holds_def)
  from holds show "result_reason (evaluate_scheme p docs s) = None"
    by (simp add: evaluate_scheme_def Let_def)
  show "result_missing (evaluate_scheme p docs s) = missing_documents_of docs s"
    by (simp add: evaluate_scheme_def Let_def)
  from missing show "result_missing (evaluate_scheme p docs s) \<noteq> []"
    by (simp add: evaluate_scheme_def Let_def)
  from missing show "\<not> eligible (evaluate_scheme p docs s)"
    by (simp add: evaluate_scheme_def Let_def)
qed

text \<open>
  The two scenarios of the specification: the income above the ceiling is the reason
  with the certificate verified and with no document at all; the certificate in the
  mismatch state is reported missing, with no reason.
\<close>

theorem evaluate_scheme_reason_witness:
  "predicate_failure (predicate low_income_scheme) asha = Some ''income exceeds ceiling''
   \<and> result_reason (evaluate_scheme asha [income_certificate Verified] low_income_scheme)
       = Some ''income exceeds ceiling''
   \<and> result_reason (evaluate_scheme asha [] low_income_scheme)
       = Some ''income exceeds ceiling''
   \<and> predicate_holds (predicate open_scheme) asha
   \<and> missing_documents_of [income_certificate Mismatch] open_scheme = [''Income Certificate'']
   \<and> result_reason (evaluate_scheme asha [income_certificate Mismatch] open_scheme) = None
   \<and> result_missing (evaluate_scheme asha [income_certificate Mismatch] open_scheme)
       = [''Income Certificate'']"
proof -
  have failure: "predicate_failure (predicate low_income_scheme) asha
      = Some ''income exceeds ceiling''"
    by (simp add: asha_def low_income_scheme_def predicate_failure_def check_income_def
        check_category_def check_dob_def check_match_def no_rule_def)
  have holds: "predicate_holds (predicate open_scheme) asha"
    by (simp add: predicate_holds_def asha_def open_scheme_def predicate_failure_def
        check_income_def check_category_def check_dob_def check_match_def no_rule_def)
  have missing: "missing_documents_of [income_certificate Mismatch] open_scheme
      = [''Income Certificate'']"
    by (simp add: missing_documents_of_def open_scheme_def income_certificate_def
        satisfies_requirement_def)
  show ?thesis
    using failure holds missing
      evaluate_scheme_reason [of low_income_scheme asha "''income exceeds ceiling''"
        "[income_certificate Verified]" "[]"]
      evaluate_scheme_reason [of open_scheme asha _ "[income_certificate Mismatch]"]
    by simp
qed

end
